theory Spec2Isabelle
  imports Complex_Main "HOL-Library.Sublist"
begin

section \<open>Errors\<close>

text \<open>
  The JavaScript code signals failure by \<^verbatim>\<open>throw new Error(message)\<close>; inside an
  \<^verbatim>\<open>async\<close> function this rejects the returned promise. Every throwing function is
  modelled with a result of type \<open>error + 'a\<close>, \<open>Inl\<close> carrying the error. \<open>Error\<close> holds
  the message of the source's \<^verbatim>\<open>Error\<close> object. \<open>CompatError\<close> is the error the versioned
  loader reports; \<open>IllShaped\<close> marks a persisted payload that does not have the Flow type
  its handler is declared for, which the typed model cannot follow.
\<close>

datatype error = Error string | CompatError string | IllShaped

section \<open>core/project.js\<close>

subsection \<open>Types\<close>

text \<open>
  \<^verbatim>\<open>RepoId\<close> and \<^verbatim>\<open>Identity\<close> are declared in plugin modules and are opaque to this code:
  they are the type parameters \<open>'r\<close> and \<open>'i\<close>. Of \<^verbatim>\<open>DiscourseServer\<close> the code builds the
  object \<^verbatim>\<open>{serverUrl: ...}\<close> and reads \<^verbatim>\<open>.serverUrl\<close>; of the initiatives options it reads
  \<^verbatim>\<open>.remoteUrl\<close>. A field typed \<^verbatim>\<open>T | null\<close> is a \<open>T option\<close>, \<open>None\<close> being \<^verbatim>\<open>null\<close>.
\<close>

type_synonym ProjectId = string

record DiscourseServer =
  serverUrl :: string

record Initiatives =
  remoteUrl :: string

text \<open>\<^verbatim>\<open>type ProjectV050\<close>, the current \<^verbatim>\<open>Project\<close>.\<close>

record ('r, 'i) Project =
  projectId :: ProjectId
  initiatives :: "Initiatives option"
  repoIds :: "'r list"
  discourseServer :: "DiscourseServer option"
  identities :: "'i list"

text \<open>\<^verbatim>\<open>type ProjectV040\<close>: no \<^verbatim>\<open>initiatives\<close> field.\<close>

record ('r, 'i) ProjectV040 =
  id040 :: ProjectId
  repoIds040 :: "'r list"
  discourseServer040 :: "DiscourseServer option"
  identities040 :: "'i list"

text \<open>\<^verbatim>\<open>type ProjectV031\<close>: the forum server carries an optional \<^verbatim>\<open>apiUsername\<close>.\<close>

record DiscourseServerV031 =
  serverUrl031 :: string
  apiUsername031 :: "string option"

record ('r, 'i) ProjectV031 =
  id031 :: ProjectId
  repoIds031 :: "'r list"
  discourseServer031 :: "DiscourseServerV031 option"
  identities031 :: "'i list"

text \<open>\<^verbatim>\<open>type ProjectV030\<close>: the forum server carries a mandatory \<^verbatim>\<open>apiUsername\<close>.\<close>

record DiscourseServerV030 =
  serverUrl030 :: string
  apiUsername030 :: string

record ('r, 'i) ProjectV030 =
  id030 :: ProjectId
  repoIds030 :: "'r list"
  discourseServer030 :: "DiscourseServerV030 option"
  identities030 :: "'i list"

text \<open>\<^verbatim>\<open>type SupportedProject = ProjectV030 | ProjectV031 | ProjectV040 | ProjectV050\<close>.\<close>

datatype ('r, 'i) SupportedProject =
  V030 "('r, 'i) ProjectV030"
| V031 "('r, 'i) ProjectV031"
| V040 "('r, 'i) ProjectV040"
| V050 "('r, 'i) Project"

text \<open>
  \<^verbatim>\<open>$Shape<Project>\<close>, the argument of \<^verbatim>\<open>createProject\<close>: every key of \<^verbatim>\<open>Project\<close> may be
  missing. The outer \<open>option\<close> is the presence of the key (\<open>None\<close>: the key is not there),
  the inner one, where there is one, is the \<^verbatim>\<open>null\<close> of the field's own type. A key that
  is there holds a value of its field's type.
\<close>

record ('r, 'i) ProjectShape =
  shapeId :: "ProjectId option"
  shapeInitiatives :: "Initiatives option option"
  shapeRepoIds :: "'r list option"
  shapeDiscourseServer :: "DiscourseServer option option"
  shapeIdentities :: "'i list option"

subsection \<open>Compat layer\<close>

record CompatInfo =
  compatType :: string
  compatVersion :: string

text \<open>\<^verbatim>\<open>Compatible<T>\<close>: the payload together with its type discriminator and version.\<close>

type_synonym 'a Compatible = "CompatInfo \<times> 'a"

text \<open>
  Modelled from the spec: \<^verbatim>\<open>toCompat\<close> of \<^verbatim>\<open>util/compat\<close>, which is not among the sources.
  The spec: a persisted document is "tagged with a type discriminator and version string
  alongside the payload".
\<close>

definition toCompat :: "CompatInfo \<Rightarrow> 'a \<Rightarrow> 'a Compatible" where
  "toCompat compatInfo obj = (compatInfo, obj)"

text \<open>
  Modelled from the spec: \<^verbatim>\<open>fromCompat\<close> of \<^verbatim>\<open>util/compat\<close>, which is not among the sources.
  The spec: the loader maps a persisted shape to the current one through a table with one
  migration function per legacy version tag; "an unrecognized version tag fails with a
  \<^verbatim>\<open>CompatError\<close>"; a document of the current version is the payload itself. The document
  must carry the expected type discriminator. \<open>current\<close> reads a payload of the expected
  version at the result type (the source's cast from \<^verbatim>\<open>any\<close>).
\<close>

definition fromCompat ::
  "CompatInfo \<Rightarrow> 'a Compatible \<Rightarrow> (string \<rightharpoonup> ('a \<Rightarrow> error + 'b)) \<Rightarrow> ('a \<Rightarrow> error + 'b)
     \<Rightarrow> error + 'b" where
  "fromCompat expectedCompatInfo obj handlers current =
     (case obj of (info, data) \<Rightarrow>
        if compatType info \<noteq> compatType expectedCompatInfo then
          Inl (CompatError (compatType info))
        else (case handlers (compatVersion info) of
          Some handler \<Rightarrow> handler data
        | None \<Rightarrow>
            if compatVersion info \<noteq> compatVersion expectedCompatInfo then
              Inl (CompatError (compatVersion info))
            else current data))"

subsection \<open>Functions\<close>

definition COMPAT_INFO :: CompatInfo where
  "COMPAT_INFO = \<lparr>compatType = ''sourcecred/project'', compatVersion = ''0.5.0''\<rparr>"

text \<open>
  \<^verbatim>\<open>createProject\<close>. \<^verbatim>\<open>!p.id\<close> holds when the key is missing and when it is the empty
  string. The result is the object of defaults overwritten by the keys \<^verbatim>\<open>p\<close> has.
\<close>

definition createProject :: "('r, 'i) ProjectShape \<Rightarrow> error + ('r, 'i) Project" where
  "createProject p =
     (case shapeId p of
        None \<Rightarrow> Inl (Error ''Project.id must be set'')
      | Some i \<Rightarrow>
          if i = [] then Inl (Error ''Project.id must be set'')
          else Inr \<lparr>projectId = i,
                    initiatives = (case shapeInitiatives p of None \<Rightarrow> None | Some v \<Rightarrow> v),
                    repoIds = (case shapeRepoIds p of None \<Rightarrow> [] | Some v \<Rightarrow> v),
                    discourseServer = (case shapeDiscourseServer p of None \<Rightarrow> None | Some v \<Rightarrow> v),
                    identities = (case shapeIdentities p of None \<Rightarrow> [] | Some v \<Rightarrow> v)\<rparr>)"

text \<open>\<^verbatim>\<open>upgradeFrom040\<close>: \<^verbatim>\<open>{...p, initiatives: null}\<close>.\<close>

definition upgradeFrom040 :: "('r, 'i) ProjectV040 \<Rightarrow> ('r, 'i) Project" where
  "upgradeFrom040 p =
     \<lparr>projectId = id040 p,
      initiatives = None,
      repoIds = repoIds040 p,
      discourseServer = discourseServer040 p,
      identities = identities040 p\<rparr>"

text \<open>
  \<^verbatim>\<open>upgradeFrom030\<close>, whose parameter is \<^verbatim>\<open>ProjectV030 | ProjectV031\<close>: it replaces the forum
  server by \<^verbatim>\<open>{serverUrl: p.discourseServer.serverUrl}\<close> when there is one and hands the
  object to \<^verbatim>\<open>upgradeFrom040\<close>.
\<close>

fun upgradeFrom030 :: "('r, 'i) ProjectV030 + ('r, 'i) ProjectV031 \<Rightarrow> ('r, 'i) Project" where
  "upgradeFrom030 (Inl p) =
     upgradeFrom040
       \<lparr>id040 = id030 p,
        repoIds040 = repoIds030 p,
        discourseServer040 =
          (case discourseServer030 p of
             Some s \<Rightarrow> Some \<lparr>serverUrl = serverUrl030 s\<rparr>
           | None \<Rightarrow> None),
        identities040 = identities030 p\<rparr>"
| "upgradeFrom030 (Inr p) =
     upgradeFrom040
       \<lparr>id040 = id031 p,
        repoIds040 = repoIds031 p,
        discourseServer040 =
          (case discourseServer031 p of
             Some s \<Rightarrow> Some \<lparr>serverUrl = serverUrl031 s\<rparr>
           | None \<Rightarrow> None),
        identities040 = identities031 p\<rparr>"

text \<open>
  The handlers of the \<^verbatim>\<open>upgrades\<close> table take \<^verbatim>\<open>any\<close>. Here a handler reads the payload
  at its declared parameter type; a payload of another shape is outside that type and is
  answered \<open>IllShaped\<close>, which stands for no behaviour of the code.
\<close>

fun handler030 :: "('r, 'i) SupportedProject \<Rightarrow> error + ('r, 'i) Project" where
  "handler030 (V030 p) = Inr (upgradeFrom030 (Inl p))"
| "handler030 (V031 p) = Inr (upgradeFrom030 (Inr p))"
| "handler030 _ = Inl IllShaped"

fun handler040 :: "('r, 'i) SupportedProject \<Rightarrow> error + ('r, 'i) Project" where
  "handler040 (V040 p) = Inr (upgradeFrom040 p)"
| "handler040 _ = Inl IllShaped"

fun asProject :: "('r, 'i) SupportedProject \<Rightarrow> error + ('r, 'i) Project" where
  "asProject (V050 p) = Inr p"
| "asProject _ = Inl IllShaped"

text \<open>The table \<^verbatim>\<open>upgrades\<close>, keyed by version tag.\<close>

definition upgrades ::
  "string \<rightharpoonup> (('r, 'i) SupportedProject \<Rightarrow> error + ('r, 'i) Project)" where
  "upgrades =
     [''0.3.0'' \<mapsto> handler030,
      ''0.3.1'' \<mapsto> handler030,
      ''0.4.0'' \<mapsto> handler040]"

definition projectToJSON :: "('r, 'i) Project \<Rightarrow> ('r, 'i) Project Compatible" where
  "projectToJSON p = toCompat COMPAT_INFO p"

definition projectFromJSON ::
  "('r, 'i) SupportedProject Compatible \<Rightarrow> error + ('r, 'i) Project" where
  "projectFromJSON j = fromCompat COMPAT_INFO j upgrades asProject"

text \<open>
  A \<^verbatim>\<open>Compatible<Project>\<close> seen as the \<^verbatim>\<open>Compatible<any>\<close> that \<^verbatim>\<open>projectFromJSON\<close> takes.
\<close>

definition asAny :: "('r, 'i) Project Compatible \<Rightarrow> ('r, 'i) SupportedProject Compatible" where
  "asAny j = (fst j, V050 (snd j))"

section \<open>backend/pluginLoaders.js\<close>

subsection \<open>Types\<close>

text \<open>
  The types this module imports and never inspects are type parameters: \<open>'c\<close> the
  \<^verbatim>\<open>CacheProvider\<close>, \<open>'p\<close> a \<^verbatim>\<open>PluginDeclaration\<close>, \<open>'d\<close> the initiative repository of a loaded
  directory. A \<^verbatim>\<open>NodeAddressT\<close> is the list of its parts (the tests build addresses with
  \<^verbatim>\<open>NodeAddress.fromParts\<close>). A \<^verbatim>\<open>ReferenceDetector\<close> is its one method \<^verbatim>\<open>addressFromUrl\<close>,
  from a token to an address or to no match.
\<close>

type_synonym NodeAddressT = "string list"

type_synonym ReferenceDetector = "string \<Rightarrow> NodeAddressT option"

type_synonym GithubToken = string

text \<open>
  An \<^verbatim>\<open>async\<close> call is modelled by the outcome its promise settles with:
  \<open>Inl\<close> a rejection, \<open>Inr\<close> the value.
\<close>

type_synonym 'a promise = "error + 'a"

text \<open>
  Weighted graphs are JavaScript objects, held by reference. The store maps a reference
  to the graph value \<open>'g\<close> behind it, so that "the same instance" is "the same reference".
\<close>

type_synonym ref = nat

type_synonym 'g store = "ref \<rightharpoonup> 'g"

record InitiativesDirectory =
  localPath :: string
  dirRemoteUrl :: string

record 'd LoadedInitiativesDirectory =
  referenceDetector :: ReferenceDetector
  initiativesRepo :: 'd

record 'i IdentitySpec =
  specIdentities :: "'i list"
  discourseServerUrl :: "string option"

text \<open>
  The loaders, one record per plugin, holding the members this module calls. Their code
  is outside the module: each member is a parameter of the model.
\<close>

record ('r, 'c, 'p) GithubLoader =
  githubDeclaration :: 'p
  githubUpdateMirror :: "'r list \<Rightarrow> GithubToken \<Rightarrow> 'c \<Rightarrow> unit promise"
  githubReferenceDetector :: "'r list \<Rightarrow> GithubToken \<Rightarrow> 'c \<Rightarrow> ReferenceDetector promise"

record ('c, 'p) DiscourseLoader =
  discourseDeclaration :: 'p
  discourseUpdateMirror :: "DiscourseServer \<Rightarrow> 'c \<Rightarrow> unit promise"
  discourseReferenceDetector :: "DiscourseServer \<Rightarrow> 'c \<Rightarrow> ReferenceDetector promise"

record ('i, 'p, 'g) IdentityLoader =
  identityDeclaration :: 'p
  contractIdentities ::
    "'g store \<Rightarrow> ref \<Rightarrow> 'i IdentitySpec \<Rightarrow> error + (ref \<times> 'g store)"

record ('p, 'd) InitiativesLoader =
  initiativesDeclaration :: 'p
  loadDirectory :: "InitiativesDirectory \<Rightarrow> 'd LoadedInitiativesDirectory promise"

record ('r, 'i, 'c, 'p, 'g, 'd) PluginLoaders =
  github :: "('r, 'c, 'p) GithubLoader"
  discourse :: "('c, 'p) DiscourseLoader"
  identity :: "('i, 'p, 'g) IdentityLoader"
  initiativesLoader :: "('p, 'd) InitiativesLoader"

record ('r, 'i, 'c, 'd) CachedProject =
  loadedInitiativesDir :: "'d LoadedInitiativesDirectory option"
  cache :: 'c
  project :: "('r, 'i) Project"

record ('r, 'i, 'c, 'd) PluginGraphs =
  graphs :: "ref list"
  cachedProject :: "('r, 'i, 'c, 'd) CachedProject"

text \<open>\<^verbatim>\<open>MirrorEnv\<close>; the reporter only observes and is left out.\<close>

record 'c MirrorEnv =
  initiativesDirectory :: "string option"
  mirrorGithubToken :: "GithubToken option"
  mirrorCache :: 'c

record GraphEnv =
  githubToken :: "GithubToken option"

text \<open>
  The loader operations \<^verbatim>\<open>updateMirror\<close> starts, in the order it starts them. Starting a
  mirror update or loading the initiatives directory is where input and output begin.
\<close>

datatype ('r, 'c) started =
  DiscourseUpdateMirror DiscourseServer 'c
| GithubUpdateMirror "'r list" GithubToken 'c
| InitiativesLoadDirectory InitiativesDirectory

subsection \<open>Functions\<close>

text \<open>
  \<^verbatim>\<open>declarations\<close>: four tests in a row, each pushing one declaration. An array is
  truthy in \<^verbatim>\<open>.length\<close> when it is not empty; an object-or-null is truthy when it is not
  \<^verbatim>\<open>null\<close>.
\<close>

definition declarations ::
  "('r, 'i, 'c, 'p, 'g, 'd) PluginLoaders \<Rightarrow> ('r, 'i) Project \<Rightarrow> 'p list" where
  "declarations loaders proj =
     (let plugins = [];
          plugins = (if repoIds proj \<noteq> []
                     then plugins @ [githubDeclaration (github loaders)] else plugins);
          plugins = (if discourseServer proj \<noteq> None
                     then plugins @ [discourseDeclaration (discourse loaders)] else plugins);
          plugins = (if identities proj \<noteq> []
                     then plugins @ [identityDeclaration (identity loaders)] else plugins);
          plugins = (if initiatives proj \<noteq> None
                     then plugins @ [initiativesDeclaration (initiativesLoader loaders)]
                     else plugins)
      in plugins)"

text \<open>
  \<^verbatim>\<open>Promise.all\<close>: the values when every promise fulfils, a rejection otherwise. Which
  rejection it reports depends on the order the promises settle in; the model takes the
  first one of the list.
\<close>

fun promiseAll :: "'a promise list \<Rightarrow> 'a list promise" where
  "promiseAll [] = Inr []"
| "promiseAll (Inl e # ts) = Inl e"
| "promiseAll (Inr v # ts) = (case promiseAll ts of Inl e \<Rightarrow> Inl e | Inr vs \<Rightarrow> Inr (v # vs))"

text \<open>\<^verbatim>\<open>!s\<close> for a \<^verbatim>\<open>?string\<close>: true of \<^verbatim>\<open>null\<close>, \<^verbatim>\<open>undefined\<close> and the empty string.\<close>

fun falsy :: "string option \<Rightarrow> bool" where
  "falsy None = True"
| "falsy (Some s) = (s = [])"

text \<open>
  \<^verbatim>\<open>updateMirror\<close>. The result pairs the operations started, in order, with the outcome
  of the returned promise. The steps follow the source: the forum task is started, then
  the code-hosting token is checked and its task started, then the initiatives
  directory is checked, loaded and awaited, then the tasks are awaited together.
  \<open>mirrorJoin\<close> is the last step, \<open>mirrorInitiatives\<close> the initiatives step with the
  operations started and the tasks pushed so far.
\<close>

definition mirrorJoin ::
  "'c MirrorEnv \<Rightarrow> ('r, 'i) Project \<Rightarrow> unit promise list \<Rightarrow> 'd LoadedInitiativesDirectory option
     \<Rightarrow> ('r, 'i, 'c, 'd) CachedProject promise" where
  "mirrorJoin env proj tasks loaded =
     (case promiseAll tasks of
        Inl e \<Rightarrow> Inl e
      | Inr _ \<Rightarrow> Inr \<lparr>loadedInitiativesDir = loaded, cache = mirrorCache env, project = proj\<rparr>)"

definition mirrorInitiatives ::
  "('r, 'i, 'c, 'p, 'g, 'd) PluginLoaders \<Rightarrow> 'c MirrorEnv \<Rightarrow> ('r, 'i) Project
     \<Rightarrow> ('r, 'c) started list \<Rightarrow> unit promise list
     \<Rightarrow> ('r, 'c) started list \<times> ('r, 'i, 'c, 'd) CachedProject promise" where
  "mirrorInitiatives loaders env proj started tasks =
     (case initiatives proj of
        None \<Rightarrow> (started, mirrorJoin env proj tasks None)
      | Some ini \<Rightarrow>
          if falsy (initiativesDirectory env) then
            (started, Inl (Error ''Tried to load Initiatives, but no $INITIATIVES_DIRECTORY set''))
          else
            (case initiativesDirectory env of
               None \<Rightarrow>
                 (started,
                  Inl (Error ''Tried to load Initiatives, but no $INITIATIVES_DIRECTORY set''))
             | Some dir \<Rightarrow>
                 let d = \<lparr>localPath = dir, dirRemoteUrl = remoteUrl ini\<rparr> in
                 (case loadDirectory (initiativesLoader loaders) d of
                    Inl e \<Rightarrow> (started @ [InitiativesLoadDirectory d], Inl e)
                  | Inr loaded \<Rightarrow>
                      (started @ [InitiativesLoadDirectory d],
                       mirrorJoin env proj tasks (Some loaded)))))"

definition updateMirror ::
  "('r, 'i, 'c, 'p, 'g, 'd) PluginLoaders \<Rightarrow> 'c MirrorEnv \<Rightarrow> ('r, 'i) Project
     \<Rightarrow> ('r, 'c) started list \<times> ('r, 'i, 'c, 'd) CachedProject promise" where
  "updateMirror loaders env proj =
     (let (log1, tasks1) =
            (case discourseServer proj of
               Some s \<Rightarrow>
                 ([DiscourseUpdateMirror s (mirrorCache env)],
                  [discourseUpdateMirror (discourse loaders) s (mirrorCache env)])
             | None \<Rightarrow> ([], []))
      in
      if repoIds proj \<noteq> [] then
        if falsy (mirrorGithubToken env) then
          (log1, Inl (Error ''Tried to load GitHub, but no GitHub token set''))
        else
          (case mirrorGithubToken env of
             None \<Rightarrow> (log1, Inl (Error ''Tried to load GitHub, but no GitHub token set''))
           | Some tok \<Rightarrow>
               mirrorInitiatives loaders env proj
                 (log1 @ [GithubUpdateMirror (repoIds proj) tok (mirrorCache env)])
                 (tasks1 @ [githubUpdateMirror (github loaders) (repoIds proj) tok
                              (mirrorCache env)]))
      else mirrorInitiatives loaders env proj log1 tasks1)"

text \<open>
  Modelled from the spec: \<^verbatim>\<open>CascadingReferenceDetector\<close> of \<^verbatim>\<open>core/references\<close>, which is
  not among the sources. The spec: it "holds an ordered list of child detectors and
  returns the first non-empty match, trying children in registration order; if none
  match, it reports no match".
\<close>

datatype CascadingReferenceDetector = CascadingReferenceDetector (refs: "ReferenceDetector list")

fun firstMatch :: "ReferenceDetector list \<Rightarrow> string \<Rightarrow> NodeAddressT option" where
  "firstMatch [] url = None"
| "firstMatch (r # rs) url = (case r url of Some a \<Rightarrow> Some a | None \<Rightarrow> firstMatch rs url)"

definition addressFromUrl :: "CascadingReferenceDetector \<Rightarrow> ReferenceDetector" where
  "addressFromUrl c url = firstMatch (refs c) url"

text \<open>
  \<^verbatim>\<open>createReferenceDetector\<close>: the code-hosting detector is awaited first (after the token
  check), then the forum one, then the loaded directory's own detector is added.
\<close>

definition createReferenceDetector ::
  "('r, 'i, 'c, 'p, 'g, 'd) PluginLoaders \<Rightarrow> GraphEnv \<Rightarrow> ('r, 'i, 'c, 'd) CachedProject
     \<Rightarrow> CascadingReferenceDetector promise" where
  "createReferenceDetector loaders env cp =
     (let rs0 = [] in
      (case (if repoIds (project cp) \<noteq> [] then
               if falsy (githubToken env) then
                 Inl (Error ''Tried to load GitHub, but no GitHub token set'')
               else
                 (case githubToken env of
                    None \<Rightarrow> Inl (Error ''Tried to load GitHub, but no GitHub token set'')
                  | Some tok \<Rightarrow>
                      (case githubReferenceDetector (github loaders) (repoIds (project cp)) tok
                              (cache cp) of
                         Inl e \<Rightarrow> Inl e
                       | Inr r \<Rightarrow> Inr (rs0 @ [r])))
             else Inr rs0) of
         Inl e \<Rightarrow> Inl e
       | Inr rs1 \<Rightarrow>
           (case (case discourseServer (project cp) of
                    Some s \<Rightarrow>
                      (case discourseReferenceDetector (discourse loaders) s (cache cp) of
                         Inl e \<Rightarrow> Inl e
                       | Inr r \<Rightarrow> Inr (rs1 @ [r]))
                  | None \<Rightarrow> Inr rs1) of
              Inl e \<Rightarrow> Inl e
            | Inr rs2 \<Rightarrow>
                let rs3 = (case loadedInitiativesDir cp of
                             Some loaded \<Rightarrow> rs2 @ [referenceDetector loaded]
                           | None \<Rightarrow> rs2)
                in Inr (CascadingReferenceDetector rs3))))"

text \<open>
  \<^verbatim>\<open>contractPluginGraphs\<close>. \<^verbatim>\<open>WeightedGraph.merge\<close> is outside the module and is the
  parameter \<open>merge\<close>: from the store and the references of the graphs it yields the
  reference of the merged graph and the store that holds it, or it throws. With no
  identities the merged reference is returned as it is; otherwise the identity loader
  contracts it.
\<close>

definition contractPluginGraphs ::
  "('g store \<Rightarrow> ref list \<Rightarrow> error + (ref \<times> 'g store))
     \<Rightarrow> ('r, 'i, 'c, 'p, 'g, 'd) PluginLoaders \<Rightarrow> ('r, 'i, 'c, 'd) PluginGraphs \<Rightarrow> 'g store
     \<Rightarrow> error + (ref \<times> 'g store)" where
  "contractPluginGraphs merge loaders pg st =
     (let proj = project (cachedProject pg) in
      (case merge st (graphs pg) of
         Inl e \<Rightarrow> Inl e
       | Inr (mergedGraph, st1) \<Rightarrow>
           if identities proj = [] then Inr (mergedGraph, st1)
           else
             let url = (case discourseServer proj of
                          Some s \<Rightarrow> Some (serverUrl s)
                        | None \<Rightarrow> None);
                 identitySpec = \<lparr>specIdentities = identities proj, discourseServerUrl = url\<rparr>
             in contractIdentities (identity loaders) st1 mergedGraph identitySpec))"

section \<open>core/algorithm/distributionToCred\<close>

record Interval =
  startTimeMs :: int
  endTimeMs :: int

text \<open>
  One interval of the solver's output. The numbers of the source are double-precision
  floats; they are modelled by the real numbers, so rounding is outside the model.
\<close>

record IntervalDistribution =
  interval :: Interval
  intervalWeight :: real
  distribution :: "real list"

record CredScores =
  intervals :: "Interval list"
  intervalCredScores :: "real list list"

text \<open>\<^verbatim>\<open>NodeAddress.hasPrefix(addr, prefix)\<close> on addresses as lists of parts.\<close>

definition hasPrefix :: "NodeAddressT \<Rightarrow> NodeAddressT \<Rightarrow> bool" where
  "hasPrefix addr p = prefix p addr"

text \<open>A node is scoring when its address matches some prefix of the scoring addresses.\<close>

definition isScoring :: "NodeAddressT list \<Rightarrow> NodeAddressT \<Rightarrow> bool" where
  "isScoring scoringAddresses addr = list_ex (hasPrefix addr) scoringAddresses"

text \<open>
  The sum of a vector, indexed by the node order, over the scoring nodes: with a
  distribution, the \<^verbatim>\<open>scoringMass\<close> of the spec's step 1.
\<close>

definition scoringMass :: "NodeAddressT list \<Rightarrow> NodeAddressT list \<Rightarrow> real list \<Rightarrow> real" where
  "scoringMass nodeOrder scoringAddresses v =
     sum_list (map snd (filter (\<lambda>nx. isScoring scoringAddresses (fst nx)) (zip nodeOrder v)))"

text \<open>
  Modelled from the spec: \<^verbatim>\<open>distributionToCred\<close> of \<^verbatim>\<open>core/algorithm/distributionToCred\<close>,
  of which only the test file is among the sources. The spec, per interval: (1) compute
  the scoring mass; (2) if it is \<open>0\<close>, every node's cred is \<open>0\<close>; (3) otherwise, for every
  node \<open>j\<close>, \<open>cred[j] = intervalWeight * distribution[j] / scoringMass\<close>. The output keeps
  the intervals in order, and an empty input gives an empty output.
\<close>

definition intervalCred :: "NodeAddressT list \<Rightarrow> NodeAddressT list \<Rightarrow> IntervalDistribution \<Rightarrow> real list" where
  "intervalCred nodeOrder scoringAddresses d =
     (let mass = scoringMass nodeOrder scoringAddresses (distribution d) in
      if mass = 0 then map (\<lambda>x. 0) (distribution d)
      else map (\<lambda>x. intervalWeight d * x / mass) (distribution d))"

definition distributionToCred ::
  "IntervalDistribution list \<Rightarrow> NodeAddressT list \<Rightarrow> NodeAddressT list \<Rightarrow> CredScores" where
  "distributionToCred ds nodeOrder scoringAddresses =
     \<lparr>intervals = map interval ds,
      intervalCredScores = map (intervalCred nodeOrder scoringAddresses) ds\<rparr>"

section \<open>Sample inputs\<close>

text \<open>
  Concrete loaders and projects, used where a statement is evaluated. Repository ids,
  identities and plugin declarations are strings here, the cache is the unit value and
  graph values are strings.
\<close>

abbreviation sampleLoaders :: "(string, string, unit, string, string, unit) PluginLoaders" where
  "sampleLoaders \<equiv>
     \<lparr>github =
        \<lparr>githubDeclaration = ''github'',
         githubUpdateMirror = (\<lambda>rs tok c. Inr ()),
         githubReferenceDetector =
           (\<lambda>rs tok c. Inr (\<lambda>url. if url = ''#1'' then Some [''github'', ''issue'', ''1''] else None))\<rparr>,
      discourse =
        \<lparr>discourseDeclaration = ''discourse'',
         discourseUpdateMirror = (\<lambda>s c. Inr ()),
         discourseReferenceDetector =
           (\<lambda>s c. Inr (\<lambda>url. if url = ''#1'' \<or> url = ''/t/1'' then Some [''discourse'', ''topic'', ''1'']
                            else None))\<rparr>,
      identity =
        \<lparr>identityDeclaration = ''identity'',
         contractIdentities = (\<lambda>st g spec. Inr (Suc g, st(Suc g \<mapsto> ''contracted'')))\<rparr>,
      initiativesLoader =
        \<lparr>initiativesDeclaration = ''initiatives'',
         loadDirectory =
           (\<lambda>d. Inr \<lparr>referenceDetector =
                      (\<lambda>url. if url = ''/t/1'' \<or> url = ''i/1'' then Some [''initiatives'', ''1'']
                             else None),
                    initiativesRepo = ()\<rparr>)\<rparr>\<rparr>"

abbreviation sampleProject :: "(string, string) Project" where
  "sampleProject \<equiv>
     \<lparr>projectId = ''sourcecred'',
      initiatives = Some \<lparr>remoteUrl = ''https://example.org/initiatives''\<rparr>,
      repoIds = [''sourcecred/sourcecred''],
      discourseServer = Some \<lparr>serverUrl = ''https://discourse.example.org''\<rparr>,
      identities = [''alice'']\<rparr>"

abbreviation sampleLoaded :: "unit LoadedInitiativesDirectory" where
  "sampleLoaded \<equiv>
     \<lparr>referenceDetector =
        (\<lambda>url. if url = ''/t/1'' \<or> url = ''i/1'' then Some [''initiatives'', ''1''] else None),
      initiativesRepo = ()\<rparr>"

abbreviation sampleMerge :: "string store \<Rightarrow> ref list \<Rightarrow> error + (ref \<times> string store)" where
  "sampleMerge \<equiv> (\<lambda>st gs. Inr (length gs, st(length gs \<mapsto> ''merged'')))"


text \<open>The two intervals of the scenarios of \<^verbatim>\<open>distributionToCred.test.js\<close>.\<close>

abbreviation testDistributions :: "IntervalDistribution list" where
  "testDistributions \<equiv>
     [\<lparr>interval = \<lparr>startTimeMs = 0, endTimeMs = 10\<rparr>, intervalWeight = 2,
       distribution = [1 / 2, 1 / 2]\<rparr>,
      \<lparr>interval = \<lparr>startTimeMs = 10, endTimeMs = 20\<rparr>, intervalWeight = 10,
       distribution = [9 / 10, 1 / 10]\<rparr>]"

section \<open>Properties of core/project.js\<close>

text \<open>
  C8. \<^verbatim>\<open>createProject\<close> fails exactly when the shape has no identifier or an empty one.
  When it succeeds, the project has the shape's identifier, every key the shape lacks
  has its default (no repositories, no identities, no forum server, no initiatives)
  and every key the shape has keeps its value.
\<close>

theorem createProject_requires_id:
  "(isl (createProject p) \<longleftrightarrow> (shapeId p = None \<or> shapeId p = Some [])) \<and>
   (\<forall>q. createProject p = Inr q \<longrightarrow>
      shapeId p = Some (projectId q) \<and>
      repoIds q = (case shapeRepoIds p of None \<Rightarrow> [] | Some v \<Rightarrow> v) \<and>
      identities q = (case shapeIdentities p of None \<Rightarrow> [] | Some v \<Rightarrow> v) \<and>
      discourseServer q = (case shapeDiscourseServer p of None \<Rightarrow> None | Some v \<Rightarrow> v) \<and>
      initiatives q = (case shapeInitiatives p of None \<Rightarrow> None | Some v \<Rightarrow> v))"
  by (auto simp: createProject_def split: option.splits)

theorem createProject_requires_id_witness:
  "createProject
     \<lparr>shapeId = Some ''sourcecred'', shapeInitiatives = None, shapeRepoIds = None,
      shapeDiscourseServer = None, shapeIdentities = Some [''alice'']\<rparr>
     = Inr (\<lparr>projectId = ''sourcecred'', initiatives = None, repoIds = [],
             discourseServer = None, identities = [''alice'']\<rparr> :: (string, string) Project) \<and>
   isl (createProject
     (\<lparr>shapeId = Some [], shapeInitiatives = None, shapeRepoIds = Some [''a/b''],
       shapeDiscourseServer = None, shapeIdentities = None\<rparr> :: (string, string) ProjectShape))"
  using createProject_requires_id
    [of "\<lparr>shapeId = Some [], shapeInitiatives = None, shapeRepoIds = Some [''a/b''],
          shapeDiscourseServer = None, shapeIdentities = None\<rparr> :: (string, string) ProjectShape"]
  by (simp add: createProject_def)

text \<open>
  C4. Serialising a project and loading the document again gives the project back, and
  the serialised document always carries the compat information of the current version,
  whose version tag is \<open>0.5.0\<close>.
\<close>

theorem project_json_roundtrip:
  "projectFromJSON (asAny (projectToJSON p)) = Inr p \<and>
   fst (projectToJSON p) = COMPAT_INFO \<and>
   compatVersion (fst (projectToJSON p)) = ''0.5.0''"
  by (simp add: projectFromJSON_def asAny_def projectToJSON_def toCompat_def fromCompat_def
      COMPAT_INFO_def upgrades_def)

theorem project_json_roundtrip_witness:
  "projectFromJSON (asAny (projectToJSON sampleProject)) = Inr sampleProject \<and>
   projectToJSON sampleProject =
     (\<lparr>compatType = ''sourcecred/project'', compatVersion = ''0.5.0''\<rparr>, sampleProject)"
  using project_json_roundtrip [of sampleProject]
  by (simp add: projectToJSON_def toCompat_def COMPAT_INFO_def)

text \<open>
  The loader applies the table: a document tagged with a legacy version is answered by
  the migration function the table has for that tag, and a tag that is neither in the
  table nor the current one is a \<open>CompatError\<close>.
\<close>

lemma projectFromJSON_legacy:
  "projectFromJSON (\<lparr>compatType = ''sourcecred/project'', compatVersion = ''0.3.0''\<rparr>, V030 p30)
     = Inr (upgradeFrom030 (Inl p30))"
  "projectFromJSON (\<lparr>compatType = ''sourcecred/project'', compatVersion = ''0.3.1''\<rparr>, V031 p31)
     = Inr (upgradeFrom030 (Inr p31))"
  "projectFromJSON (\<lparr>compatType = ''sourcecred/project'', compatVersion = ''0.4.0''\<rparr>, V040 p40)
     = Inr (upgradeFrom040 p40)"
  by (simp_all add: projectFromJSON_def fromCompat_def COMPAT_INFO_def upgrades_def)

lemma projectFromJSON_unknown_version:
  "projectFromJSON (\<lparr>compatType = ''sourcecred/project'', compatVersion = ''0.2.0''\<rparr>, d)
     = Inl (CompatError ''0.2.0'')"
  by (simp add: projectFromJSON_def fromCompat_def COMPAT_INFO_def upgrades_def)

text \<open>
  C5. For each of the tags \<open>0.3.0\<close>, \<open>0.3.1\<close> and \<open>0.4.0\<close> the table \<^verbatim>\<open>upgrades\<close> has a
  migration function, and on a document of that version's shape it yields the \<open>0.5.0\<close>
  project with the same id, repository ids and identities and with no initiatives.
  From \<open>0.3.0\<close> and \<open>0.3.1\<close> the forum server keeps its \<^verbatim>\<open>serverUrl\<close> only (the result type
  has no \<^verbatim>\<open>apiUsername\<close>) and stays absent when it was absent; from \<open>0.4.0\<close> it is unchanged.
\<close>

theorem upgrades_legacy_versions:
  "(\<exists>h. upgrades ''0.3.0'' = Some h \<and>
        h (V030 p30) =
          Inr \<lparr>projectId = id030 p30, initiatives = None, repoIds = repoIds030 p30,
               discourseServer =
                 (case discourseServer030 p30 of
                    Some s \<Rightarrow> Some \<lparr>serverUrl = serverUrl030 s\<rparr> | None \<Rightarrow> None),
               identities = identities030 p30\<rparr>) \<and>
   (\<exists>h. upgrades ''0.3.1'' = Some h \<and>
        h (V031 p31) =
          Inr \<lparr>projectId = id031 p31, initiatives = None, repoIds = repoIds031 p31,
               discourseServer =
                 (case discourseServer031 p31 of
                    Some s \<Rightarrow> Some \<lparr>serverUrl = serverUrl031 s\<rparr> | None \<Rightarrow> None),
               identities = identities031 p31\<rparr>) \<and>
   (\<exists>h. upgrades ''0.4.0'' = Some h \<and>
        h (V040 p40) =
          Inr \<lparr>projectId = id040 p40, initiatives = None, repoIds = repoIds040 p40,
               discourseServer = discourseServer040 p40,
               identities = identities040 p40\<rparr>)"
  by (simp add: upgrades_def upgradeFrom040_def)

theorem upgrades_legacy_versions_witness:
  "(\<exists>h. upgrades ''0.3.0'' = Some h \<and>
        h (V030 \<lparr>id030 = ''foo/bar'', repoIds030 = [''foo/bar''],
                 discourseServer030 =
                   Some \<lparr>serverUrl030 = ''https://example.com'', apiUsername030 = ''hello''\<rparr>,
                 identities030 = []\<rparr>) =
          Inr (\<lparr>projectId = ''foo/bar'', initiatives = None, repoIds = [''foo/bar''],
                discourseServer = Some \<lparr>serverUrl = ''https://example.com''\<rparr>,
                identities = []\<rparr> :: (string, string) Project)) \<and>
   (\<exists>h. upgrades ''0.3.1'' = Some h \<and>
        h (V031 \<lparr>id031 = ''foo/bar'', repoIds031 = [''foo/bar''], discourseServer031 = None,
                 identities031 = [''alice'']\<rparr>) =
          Inr (\<lparr>projectId = ''foo/bar'', initiatives = None, repoIds = [''foo/bar''],
                discourseServer = None, identities = [''alice'']\<rparr> :: (string, string) Project)) \<and>
   (\<exists>h. upgrades ''0.4.0'' = Some h \<and>
        h (V040 \<lparr>id040 = ''foo/bar'', repoIds040 = [],
                 discourseServer040 = Some \<lparr>serverUrl = ''https://example.com''\<rparr>,
                 identities040 = []\<rparr>) =
          Inr (\<lparr>projectId = ''foo/bar'', initiatives = None, repoIds = [],
                discourseServer = Some \<lparr>serverUrl = ''https://example.com''\<rparr>,
                identities = []\<rparr> :: (string, string) Project))"
  using upgrades_legacy_versions
    [of "\<lparr>id030 = ''foo/bar'', repoIds030 = [''foo/bar''],
          discourseServer030 =
            Some \<lparr>serverUrl030 = ''https://example.com'', apiUsername030 = ''hello''\<rparr>,
          identities030 = []\<rparr> :: (string, string) ProjectV030"
        "\<lparr>id031 = ''foo/bar'', repoIds031 = [''foo/bar''], discourseServer031 = None,
          identities031 = [''alice'']\<rparr> :: (string, string) ProjectV031"
        "\<lparr>id040 = ''foo/bar'', repoIds040 = [],
          discourseServer040 = Some \<lparr>serverUrl = ''https://example.com''\<rparr>,
          identities040 = []\<rparr> :: (string, string) ProjectV040"]
  by simp

section \<open>Properties of backend/pluginLoaders.js\<close>

lemma falsy_iff: "falsy t \<longleftrightarrow> t = None \<or> t = Some []"
  by (cases t) auto

text \<open>
  The operations \<^verbatim>\<open>updateMirror\<close> starts do not depend on the project's identities: the
  identity plugin has no mirror.
\<close>

lemma updateMirror_ignores_identities:
  "fst (updateMirror loaders env (proj\<lparr>identities := ids\<rparr>)) = fst (updateMirror loaders env proj)"
  by (simp add: updateMirror_def mirrorInitiatives_def Let_def
      split: option.splits sum.splits prod.splits)

text \<open>
  C10. \<^verbatim>\<open>declarations\<close> lists the code-hosting, forum, identity and initiatives
  declarations in this order, each exactly when the project has repository ids, a
  forum server, identities, an initiatives descriptor. So a project with identities
  contributes the identity declaration, while its identities start no mirror operation.
\<close>

theorem declarations_order:
  "declarations loaders proj =
     (if repoIds proj \<noteq> [] then [githubDeclaration (github loaders)] else []) @
     (if discourseServer proj \<noteq> None then [discourseDeclaration (discourse loaders)] else []) @
     (if identities proj \<noteq> [] then [identityDeclaration (identity loaders)] else []) @
     (if initiatives proj \<noteq> None then [initiativesDeclaration (initiativesLoader loaders)]
      else []) \<and>
   (identities proj \<noteq> [] \<longrightarrow> identityDeclaration (identity loaders) \<in> set (declarations loaders proj)) \<and>
   fst (updateMirror loaders env (proj\<lparr>identities := ids\<rparr>)) = fst (updateMirror loaders env proj)"
  by (simp add: declarations_def Let_def updateMirror_ignores_identities)

theorem declarations_order_witness:
  "declarations sampleLoaders sampleProject = [''github'', ''discourse'', ''identity'', ''initiatives''] \<and>
   declarations sampleLoaders
     (\<lparr>projectId = ''p'', initiatives = None, repoIds = [], discourseServer = None,
       identities = [''alice'']\<rparr> :: (string, string) Project) = [''identity''] \<and>
   fst (updateMirror sampleLoaders
          \<lparr>initiativesDirectory = None, mirrorGithubToken = None, mirrorCache = ()\<rparr>
          (\<lparr>projectId = ''p'', initiatives = None, repoIds = [], discourseServer = None,
            identities = [''alice'']\<rparr> :: (string, string) Project)) = []"
  using declarations_order [where loaders = sampleLoaders and proj = sampleProject]
    declarations_order
      [where proj = "\<lparr>projectId = ''p'', initiatives = None, repoIds = [], discourseServer = None,
            identities = [''alice'']\<rparr> :: (string, string) Project" and loaders = sampleLoaders]
  by (simp add: updateMirror_def mirrorInitiatives_def)

text \<open>
  C2, as the code has it. When the project has repository ids and the token is missing
  (or empty), \<^verbatim>\<open>updateMirror\<close> fails with the token error, and what it has started by
  then is the forum mirror update when the project has a forum server, and nothing
  else: neither the code-hosting mirror update nor the loading of the initiatives
  directory. When the project has an initiatives descriptor and the directory is missing
  (or empty), \<^verbatim>\<open>updateMirror\<close> fails and never starts loading the directory. If the
  project also has repository ids and no token, this is the token failure just
  described, with the forum mirror update alone started. Otherwise it is the directory
  error, and what has been started is the forum mirror update when the project has a
  forum server, followed by the code-hosting mirror update when it has repository ids.
\<close>

theorem updateMirror_missing_configuration:
  "(repoIds proj \<noteq> [] \<and> falsy (mirrorGithubToken env) \<longrightarrow>
      updateMirror loaders env proj =
        ((case discourseServer proj of
            Some s \<Rightarrow> [DiscourseUpdateMirror s (mirrorCache env)]
          | None \<Rightarrow> []),
         Inl (Error ''Tried to load GitHub, but no GitHub token set''))) \<and>
   (initiatives proj \<noteq> None \<and> falsy (initiativesDirectory env) \<longrightarrow>
      updateMirror loaders env proj =
        (if repoIds proj \<noteq> [] \<and> falsy (mirrorGithubToken env) then
           ((case discourseServer proj of
               Some s \<Rightarrow> [DiscourseUpdateMirror s (mirrorCache env)]
             | None \<Rightarrow> []),
            Inl (Error ''Tried to load GitHub, but no GitHub token set''))
         else
           ((case discourseServer proj of
               Some s \<Rightarrow> [DiscourseUpdateMirror s (mirrorCache env)]
             | None \<Rightarrow> []) @
            (case mirrorGithubToken env of
               Some tok \<Rightarrow>
                 if repoIds proj \<noteq> []
                 then [GithubUpdateMirror (repoIds proj) tok (mirrorCache env)]
                 else []
             | None \<Rightarrow> []),
            Inl (Error ''Tried to load Initiatives, but no $INITIATIVES_DIRECTORY set''))) \<and>
      (\<forall>d. InitiativesLoadDirectory d \<notin> set (fst (updateMirror loaders env proj))))"
proof (intro conjI impI)
  assume "repoIds proj \<noteq> [] \<and> falsy (mirrorGithubToken env)"
  then show "updateMirror loaders env proj =
        ((case discourseServer proj of
            Some s \<Rightarrow> [DiscourseUpdateMirror s (mirrorCache env)]
          | None \<Rightarrow> []),
         Inl (Error ''Tried to load GitHub, but no GitHub token set''))"
    by (simp add: updateMirror_def split: option.splits)
next
  assume "initiatives proj \<noteq> None \<and> falsy (initiativesDirectory env)"
  then show "updateMirror loaders env proj =
        (if repoIds proj \<noteq> [] \<and> falsy (mirrorGithubToken env) then
           ((case discourseServer proj of
               Some s \<Rightarrow> [DiscourseUpdateMirror s (mirrorCache env)]
             | None \<Rightarrow> []),
            Inl (Error ''Tried to load GitHub, but no GitHub token set''))
         else
           ((case discourseServer proj of
               Some s \<Rightarrow> [DiscourseUpdateMirror s (mirrorCache env)]
             | None \<Rightarrow> []) @
            (case mirrorGithubToken env of
               Some tok \<Rightarrow>
                 if repoIds proj \<noteq> []
                 then [GithubUpdateMirror (repoIds proj) tok (mirrorCache env)]
                 else []
             | None \<Rightarrow> []),
            Inl (Error ''Tried to load Initiatives, but no $INITIATIVES_DIRECTORY set'')))"
    by (auto simp: updateMirror_def mirrorInitiatives_def split: option.splits)
next
  assume "initiatives proj \<noteq> None \<and> falsy (initiativesDirectory env)"
  then show "\<forall>d. InitiativesLoadDirectory d \<notin> set (fst (updateMirror loaders env proj))"
    by (auto simp: updateMirror_def mirrorInitiatives_def split: option.splits)
qed

theorem updateMirror_missing_configuration_witness:
  "updateMirror sampleLoaders
     \<lparr>initiativesDirectory = None, mirrorGithubToken = None, mirrorCache = ()\<rparr>
     (\<lparr>projectId = ''p'', initiatives = None, repoIds = [''a/b''], discourseServer = None,
       identities = []\<rparr> :: (string, string) Project)
     = ([], Inl (Error ''Tried to load GitHub, but no GitHub token set'')) \<and>
   updateMirror sampleLoaders
     \<lparr>initiativesDirectory = None, mirrorGithubToken = Some ''token'', mirrorCache = ()\<rparr>
     sampleProject
     = ([DiscourseUpdateMirror \<lparr>serverUrl = ''https://discourse.example.org''\<rparr> (),
         GithubUpdateMirror [''sourcecred/sourcecred''] ''token'' ()],
        Inl (Error ''Tried to load Initiatives, but no $INITIATIVES_DIRECTORY set'')) \<and>
   updateMirror sampleLoaders
     \<lparr>initiativesDirectory = None, mirrorGithubToken = None, mirrorCache = ()\<rparr>
     sampleProject
     = ([DiscourseUpdateMirror \<lparr>serverUrl = ''https://discourse.example.org''\<rparr> ()],
        Inl (Error ''Tried to load GitHub, but no GitHub token set''))"
  using updateMirror_missing_configuration
      [where proj = "\<lparr>projectId = ''p'', initiatives = None, repoIds = [''a/b''],
            discourseServer = None, identities = []\<rparr> :: (string, string) Project"
         and env = "\<lparr>initiativesDirectory = None, mirrorGithubToken = None, mirrorCache = ()\<rparr>"
         and loaders = sampleLoaders]
    updateMirror_missing_configuration
      [where proj = sampleProject
         and env = "\<lparr>initiativesDirectory = None, mirrorGithubToken = Some ''token'',
                      mirrorCache = ()\<rparr>"
         and loaders = sampleLoaders]
    updateMirror_missing_configuration
      [where proj = sampleProject
         and env = "\<lparr>initiativesDirectory = None, mirrorGithubToken = None, mirrorCache = ()\<rparr>"
         and loaders = sampleLoaders]
  by simp

text \<open>
  The claim as the spec words it, that the failure comes before any activity, does not
  hold: with a forum server, repository ids and no token, the forum mirror update has
  been started when \<^verbatim>\<open>updateMirror\<close> fails; with a token and no initiatives directory,
  the forum and the code-hosting mirror updates have been started.
\<close>

theorem updateMirror_started_before_failure:
  "repoIds sampleProject \<noteq> [] \<and>
   updateMirror sampleLoaders
     \<lparr>initiativesDirectory = Some ''/initiatives'', mirrorGithubToken = None, mirrorCache = ()\<rparr>
     sampleProject
     = ([DiscourseUpdateMirror \<lparr>serverUrl = ''https://discourse.example.org''\<rparr> ()],
        Inl (Error ''Tried to load GitHub, but no GitHub token set'')) \<and>
   initiatives sampleProject \<noteq> None \<and>
   updateMirror sampleLoaders
     \<lparr>initiativesDirectory = None, mirrorGithubToken = Some ''token'', mirrorCache = ()\<rparr>
     sampleProject
     = ([DiscourseUpdateMirror \<lparr>serverUrl = ''https://discourse.example.org''\<rparr> (),
         GithubUpdateMirror [''sourcecred/sourcecred''] ''token'' ()],
        Inl (Error ''Tried to load Initiatives, but no $INITIATIVES_DIRECTORY set''))"
  by (simp add: updateMirror_def mirrorInitiatives_def)

text \<open>
  A cached project that \<^verbatim>\<open>updateMirror\<close> returns holds the project and the cache it was
  given, and has a loaded initiatives directory exactly when the project has an
  initiatives descriptor.
\<close>

lemma updateMirror_cachedProject:
  "updateMirror loaders env proj = (started, Inr cp) \<Longrightarrow>
   project cp = proj \<and> cache cp = mirrorCache env \<and>
   (loadedInitiativesDir cp \<noteq> None) = (initiatives proj \<noteq> None)"
  by (auto simp: updateMirror_def mirrorInitiatives_def mirrorJoin_def Let_def
      split: option.splits sum.splits if_splits prod.splits)

text \<open>The cascade over a list of detectors: the first child that matches answers.\<close>

lemma firstMatch_append:
  "firstMatch (rs @ ss) url =
     (case firstMatch rs url of Some a \<Rightarrow> Some a | None \<Rightarrow> firstMatch ss url)"
  by (induction rs) (auto split: option.splits)

lemma firstMatch_None: "firstMatch rs url = None \<longleftrightarrow> (\<forall>r \<in> set rs. r url = None)"
  by (induction rs) (auto split: option.splits)

lemma firstMatch_first:
  "i < length rs \<Longrightarrow> (rs ! i) url = Some a \<Longrightarrow> (\<forall>j<i. (rs ! j) url = None) \<Longrightarrow>
   firstMatch rs url = Some a"
proof (induction rs arbitrary: i)
  case Nil
  then show ?case by simp
next
  case (Cons r rs)
  show ?case
  proof (cases i)
    case 0
    with Cons.prems show ?thesis by simp
  next
    case (Suc k)
    with Cons.prems have head: "r url = None" by auto
    have "firstMatch rs url = Some a"
    proof (rule Cons.IH)
      show "k < length rs" using Cons.prems Suc by simp
      show "(rs ! k) url = Some a" using Cons.prems Suc by simp
      show "\<forall>j<k. (rs ! j) url = None"
      proof (intro allI impI)
        fix j assume "j < k"
        then have "Suc j < i" using Suc by simp
        with Cons.prems(3) have "((r # rs) ! Suc j) url = None" by blast
        then show "(rs ! j) url = None" by simp
      qed
    qed
    with head show ?thesis by simp
  qed
qed

text \<open>Without a token, \<^verbatim>\<open>createReferenceDetector\<close> fails as \<^verbatim>\<open>updateMirror\<close> does.\<close>

lemma createReferenceDetector_no_token:
  "repoIds (project cp) \<noteq> [] \<Longrightarrow> falsy (githubToken env) \<Longrightarrow>
   createReferenceDetector loaders env cp =
     Inl (Error ''Tried to load GitHub, but no GitHub token set'')"
  by (simp add: createReferenceDetector_def Let_def)

lemma createReferenceDetector_children:
  assumes "repoIds (project cp) \<noteq> [] \<longrightarrow>
      githubToken env = Some tok \<and> tok \<noteq> [] \<and>
      githubReferenceDetector (github loaders) (repoIds (project cp)) tok (cache cp) = Inr gh"
    and "\<forall>s. discourseServer (project cp) = Some s \<longrightarrow>
      discourseReferenceDetector (discourse loaders) s (cache cp) = Inr dc"
  shows "createReferenceDetector loaders env cp =
     Inr (CascadingReferenceDetector
       ((if repoIds (project cp) \<noteq> [] then [gh] else []) @
        (if discourseServer (project cp) \<noteq> None then [dc] else []) @
        (case loadedInitiativesDir cp of
           Some loaded \<Rightarrow> [referenceDetector loaded]
         | None \<Rightarrow> [])))"
  using assms
  by (auto simp: createReferenceDetector_def Let_def split: option.splits)

text \<open>
  C7. When the code-hosting detector \<open>gh\<close> and the forum detector \<open>dc\<close> are obtained (the
  token is there when the project has repository ids, and the loaders' promises
  fulfil), \<^verbatim>\<open>createReferenceDetector\<close> returns the cascading detector whose children are,
  in this order, \<open>gh\<close> when the project has repository ids, \<open>dc\<close> when it has a forum
  server, and the loaded initiatives directory's detector when the cached project has
  one; a cached project returned by \<^verbatim>\<open>updateMirror\<close> has one exactly when the project has
  an initiatives descriptor. On a token the earlier source wins: a match of \<open>gh\<close> is the
  answer whatever the others say; a match of \<open>dc\<close> is the answer when \<open>gh\<close> is not a child
  or does not match; the initiatives detector answers only when neither matches.
\<close>

theorem createReferenceDetector_cascade_order:
  assumes "repoIds (project cp) \<noteq> [] \<longrightarrow>
      githubToken env = Some tok \<and> tok \<noteq> [] \<and>
      githubReferenceDetector (github loaders) (repoIds (project cp)) tok (cache cp) = Inr gh"
    and "\<forall>s. discourseServer (project cp) = Some s \<longrightarrow>
      discourseReferenceDetector (discourse loaders) s (cache cp) = Inr dc"
  shows "\<exists>c. createReferenceDetector loaders env cp = Inr c \<and>
     refs c =
       (if repoIds (project cp) \<noteq> [] then [gh] else []) @
       (if discourseServer (project cp) \<noteq> None then [dc] else []) @
       (case loadedInitiativesDir cp of
          Some loaded \<Rightarrow> [referenceDetector loaded]
        | None \<Rightarrow> []) \<and>
     (\<forall>mloaders menv started.
        updateMirror mloaders menv (project cp) = (started, Inr cp) \<longrightarrow>
        (loadedInitiativesDir cp \<noteq> None) = (initiatives (project cp) \<noteq> None)) \<and>
     (\<forall>url a. repoIds (project cp) \<noteq> [] \<and> gh url = Some a \<longrightarrow> addressFromUrl c url = Some a) \<and>
     (\<forall>url a. (repoIds (project cp) = [] \<or> gh url = None) \<and>
        discourseServer (project cp) \<noteq> None \<and> dc url = Some a \<longrightarrow>
        addressFromUrl c url = Some a) \<and>
     (\<forall>url. (repoIds (project cp) = [] \<or> gh url = None) \<and>
        (discourseServer (project cp) = None \<or> dc url = None) \<longrightarrow>
        addressFromUrl c url =
          (case loadedInitiativesDir cp of
             Some loaded \<Rightarrow> referenceDetector loaded url
           | None \<Rightarrow> None))"
proof -
  let ?children =
    "(if repoIds (project cp) \<noteq> [] then [gh] else []) @
     (if discourseServer (project cp) \<noteq> None then [dc] else []) @
     (case loadedInitiativesDir cp of
        Some loaded \<Rightarrow> [referenceDetector loaded]
      | None \<Rightarrow> [])"
  let ?c = "CascadingReferenceDetector ?children"
  have result: "createReferenceDetector loaders env cp = Inr ?c"
    using assms by (rule createReferenceDetector_children)
  have children: "refs ?c = ?children"
    by simp
  have mirror: "\<forall>mloaders menv started.
        updateMirror mloaders menv (project cp) = (started, Inr cp) \<longrightarrow>
        (loadedInitiativesDir cp \<noteq> None) = (initiatives (project cp) \<noteq> None)"
    using updateMirror_cachedProject by blast
  have first: "\<forall>url a. repoIds (project cp) \<noteq> [] \<and> gh url = Some a \<longrightarrow>
      addressFromUrl ?c url = Some a"
    by (simp add: addressFromUrl_def)
  have second: "\<forall>url a. (repoIds (project cp) = [] \<or> gh url = None) \<and>
        discourseServer (project cp) \<noteq> None \<and> dc url = Some a \<longrightarrow>
        addressFromUrl ?c url = Some a"
    by (auto simp: addressFromUrl_def)
  have third: "\<forall>url. (repoIds (project cp) = [] \<or> gh url = None) \<and>
        (discourseServer (project cp) = None \<or> dc url = None) \<longrightarrow>
        addressFromUrl ?c url =
          (case loadedInitiativesDir cp of
             Some loaded \<Rightarrow> referenceDetector loaded url
           | None \<Rightarrow> None)"
    by (auto simp: addressFromUrl_def split: option.splits)
  from result children mirror first second third show ?thesis
    by blast
qed

theorem createReferenceDetector_cascade_order_witness:
  "\<exists>c. createReferenceDetector sampleLoaders \<lparr>githubToken = Some ''token''\<rparr>
          \<lparr>loadedInitiativesDir = Some sampleLoaded, cache = (), project = sampleProject\<rparr> = Inr c \<and>
        length (refs c) = 3 \<and>
        addressFromUrl c ''#1'' = Some [''github'', ''issue'', ''1''] \<and>
        addressFromUrl c ''/t/1'' = Some [''discourse'', ''topic'', ''1''] \<and>
        addressFromUrl c ''i/1'' = Some [''initiatives'', ''1''] \<and>
        addressFromUrl c ''none'' = None"
  using createReferenceDetector_cascade_order
    [where cp = "\<lparr>loadedInitiativesDir = Some sampleLoaded, cache = (), project = sampleProject\<rparr>"
       and env = "\<lparr>githubToken = Some ''token''\<rparr>"
       and loaders = sampleLoaders
       and tok = "''token''"
       and gh = "\<lambda>url. if url = ''#1'' then Some [''github'', ''issue'', ''1''] else None"
       and dc = "\<lambda>url. if url = ''#1'' \<or> url = ''/t/1'' then Some [''discourse'', ''topic'', ''1'']
                       else None"]
  by (simp add: createReferenceDetector_def addressFromUrl_def)

text \<open>With identities, the merged graph is handed to the identity loader.\<close>

lemma contractPluginGraphs_identities:
  "identities (project (cachedProject pg)) \<noteq> [] \<Longrightarrow> merge st (graphs pg) = Inr (g, st1) \<Longrightarrow>
   contractPluginGraphs merge loaders pg st =
     contractIdentities (identity loaders) st1 g
       \<lparr>specIdentities = identities (project (cachedProject pg)),
        discourseServerUrl =
          (case discourseServer (project (cachedProject pg)) of
             Some s \<Rightarrow> Some (serverUrl s)
           | None \<Rightarrow> None)\<rparr>"
  by (simp add: contractPluginGraphs_def Let_def)

text \<open>
  C6. When the project has no identities, \<^verbatim>\<open>contractPluginGraphs\<close> returns what
  \<^verbatim>\<open>WeightedGraph.merge\<close> returns for the graphs: the same reference, in the store as
  the merge left it, so nothing is copied. The identity loader is not consulted: the
  result is the same for any two sets of loaders.
\<close>

theorem contractPluginGraphs_no_identities:
  "identities (project (cachedProject pg)) = [] \<Longrightarrow>
   contractPluginGraphs merge loaders pg st = merge st (graphs pg) \<and>
   contractPluginGraphs merge loaders pg st = contractPluginGraphs merge loaders' pg st"
  by (simp add: contractPluginGraphs_def Let_def split: sum.splits prod.splits)

theorem contractPluginGraphs_no_identities_witness:
  "contractPluginGraphs sampleMerge sampleLoaders
     \<lparr>graphs = [0, 1],
      cachedProject =
        \<lparr>loadedInitiativesDir = None, cache = (),
         project = sampleProject\<lparr>identities := []\<rparr>\<rparr>\<rparr>
     [0 \<mapsto> ''github graph'', 1 \<mapsto> ''discourse graph'']
   = Inr (2, [0 \<mapsto> ''github graph'', 1 \<mapsto> ''discourse graph'', 2 \<mapsto> ''merged''])"
  using contractPluginGraphs_no_identities
    [where pg = "\<lparr>graphs = [0, 1],
                   cachedProject =
                     \<lparr>loadedInitiativesDir = None, cache = (),
                      project = sampleProject\<lparr>identities := []\<rparr>\<rparr>\<rparr>"
       and merge = sampleMerge and loaders = sampleLoaders and loaders' = sampleLoaders
       and st = "[0 \<mapsto> ''github graph'', 1 \<mapsto> ''discourse graph'']"]
  by (simp add: numeral_2_eq_2)

section \<open>Properties of distributionToCred\<close>

lemma scoringMass_Nil [simp]:
  "scoringMass [] sc v = 0"
  "scoringMass ns sc [] = 0"
  by (simp_all add: scoringMass_def)

lemma scoringMass_Cons [simp]:
  "scoringMass (n # ns) sc (x # v) = (if isScoring sc n then x else 0) + scoringMass ns sc v"
  by (simp add: scoringMass_def)

text \<open>Scaling a vector scales its sum over the scoring nodes.\<close>

lemma scoringMass_scale:
  "scoringMass ns sc (map (\<lambda>x. c * x / m) v) = c * scoringMass ns sc v / m"
proof (induction ns arbitrary: v)
  case Nil
  then show ?case by simp
next
  case (Cons n ns)
  show ?case
  proof (cases v)
    case Nil
    then show ?thesis by simp
  next
    case (Cons x xs)
    then show ?thesis using Cons.IH [of xs]
      by (simp add: algebra_simps add_divide_distrib)
  qed
qed

text \<open>The empty address is a prefix of every address.\<close>

lemma isScoring_empty: "isScoring [[]] n"
  by (simp add: isScoring_def hasPrefix_def)

lemma scoringMass_cover:
  "\<forall>n \<in> set ns. isScoring sc n \<Longrightarrow> scoringMass ns sc v = scoringMass ns [[]] v"
proof (induction ns arbitrary: v)
  case Nil
  then show ?case by simp
next
  case (Cons n ns)
  then show ?case by (cases v) (simp_all add: isScoring_empty)
qed

text \<open>The output keeps the intervals, in order; no interval, no output.\<close>

lemma distributionToCred_intervals:
  "intervals (distributionToCred ds nodeOrder sc) = map interval ds \<and>
   length (intervalCredScores (distributionToCred ds nodeOrder sc)) = length ds"
  by (simp add: distributionToCred_def)

lemma distributionToCred_empty:
  "distributionToCred [] nodeOrder sc = \<lparr>intervals = [], intervalCredScores = []\<rparr>"
  by (simp add: distributionToCred_def)

text \<open>
  The scenarios of \<^verbatim>\<open>distributionToCred.test.js\<close>, with the nodes \<open>foo\<close> and \<open>bar\<close>: all
  nodes scoring through the empty prefix, both prefixes listed, only \<open>bar\<close> scoring, no
  scoring prefix, and all the mass on the node that is not scoring.
\<close>

lemma test_all_nodes_scoring:
  "distributionToCred testDistributions [[''foo''], [''bar'']] [[]] =
     \<lparr>intervals = [\<lparr>startTimeMs = 0, endTimeMs = 10\<rparr>, \<lparr>startTimeMs = 10, endTimeMs = 20\<rparr>],
      intervalCredScores = [[1, 1], [9, 1]]\<rparr>"
  by (simp add: distributionToCred_def intervalCred_def isScoring_def hasPrefix_def)

lemma test_multiple_scoring_prefixes:
  "distributionToCred testDistributions [[''foo''], [''bar'']] [[''foo''], [''bar'']] =
     \<lparr>intervals = [\<lparr>startTimeMs = 0, endTimeMs = 10\<rparr>, \<lparr>startTimeMs = 10, endTimeMs = 20\<rparr>],
      intervalCredScores = [[1, 1], [9, 1]]\<rparr>"
  by (simp add: distributionToCred_def intervalCred_def isScoring_def hasPrefix_def)

lemma test_some_nodes_scoring:
  "distributionToCred testDistributions [[''foo''], [''bar'']] [[''bar'']] =
     \<lparr>intervals = [\<lparr>startTimeMs = 0, endTimeMs = 10\<rparr>, \<lparr>startTimeMs = 10, endTimeMs = 20\<rparr>],
      intervalCredScores = [[2, 2], [90, 10]]\<rparr>"
  by (simp add: distributionToCred_def intervalCred_def isScoring_def hasPrefix_def)

lemma test_no_nodes_scoring:
  "distributionToCred
     [\<lparr>interval = \<lparr>startTimeMs = 0, endTimeMs = 10\<rparr>, intervalWeight = 2,
       distribution = [1 / 2, 1 / 2]\<rparr>]
     [[''foo''], [''bar'']] [] =
     \<lparr>intervals = [\<lparr>startTimeMs = 0, endTimeMs = 10\<rparr>], intervalCredScores = [[0, 0]]\<rparr>"
  by (simp add: distributionToCred_def intervalCred_def isScoring_def hasPrefix_def)

lemma test_scoring_mass_zero:
  "distributionToCred
     [\<lparr>interval = \<lparr>startTimeMs = 0, endTimeMs = 10\<rparr>, intervalWeight = 2,
       distribution = [1, 0]\<rparr>]
     [[''foo''], [''bar'']] [[''bar'']] =
     \<lparr>intervals = [\<lparr>startTimeMs = 0, endTimeMs = 10\<rparr>], intervalCredScores = [[0, 0]]\<rparr>"
  by (simp add: distributionToCred_def intervalCred_def isScoring_def hasPrefix_def)

text \<open>
  C1. For the \<open>k\<close>-th interval of the input, when its scoring mass is positive: its cred
  vector is the distribution with every entry \<open>x\<close>, of a scoring node or not, replaced by
  \<open>intervalWeight * x / scoringMass\<close>, and the cred of the scoring nodes sums to the
  interval weight.
\<close>

theorem distributionToCred_positive_mass:
  assumes "k < length ds"
    and "0 < scoringMass nodeOrder sc (distribution (ds ! k))"
  shows "intervalCredScores (distributionToCred ds nodeOrder sc) ! k =
           map (\<lambda>x. intervalWeight (ds ! k) * x / scoringMass nodeOrder sc (distribution (ds ! k)))
             (distribution (ds ! k)) \<and>
         (\<forall>j < length (distribution (ds ! k)).
            intervalCredScores (distributionToCred ds nodeOrder sc) ! k ! j =
              intervalWeight (ds ! k) * distribution (ds ! k) ! j
                / scoringMass nodeOrder sc (distribution (ds ! k))) \<and>
         scoringMass nodeOrder sc (intervalCredScores (distributionToCred ds nodeOrder sc) ! k) =
           intervalWeight (ds ! k)"
  using assms
  by (simp add: distributionToCred_def intervalCred_def Let_def scoringMass_scale)

theorem distributionToCred_positive_mass_witness:
  "(1::nat) < length testDistributions \<and>
   scoringMass [[''foo''], [''bar'']] [[''bar'']] (distribution (testDistributions ! 1)) = 1 / 10 \<and>
   intervalCredScores (distributionToCred testDistributions [[''foo''], [''bar'']] [[''bar'']]) ! 1
     = [90, 10] \<and>
   scoringMass [[''foo''], [''bar'']] [[''bar'']]
     (intervalCredScores (distributionToCred testDistributions [[''foo''], [''bar'']] [[''bar'']]) ! 1)
     = 10"
proof -
  have len: "(1::nat) < length testDistributions"
    by simp
  have mass: "scoringMass [[''foo''], [''bar'']] [[''bar'']] (distribution (testDistributions ! 1))
      = 1 / 10"
    by (simp add: isScoring_def hasPrefix_def)
  then have pos: "0 < scoringMass [[''foo''], [''bar'']] [[''bar'']]
      (distribution (testDistributions ! 1))"
    by simp
  show ?thesis
    using distributionToCred_positive_mass [OF len pos] mass
    by (simp add: isScoring_def hasPrefix_def)
qed

text \<open>
  C3. For the \<open>k\<close>-th interval of the input, when its scoring mass is zero: its cred
  vector has one zero per entry of the distribution, whatever mass the nodes that are
  not scoring carry. The function has a plain result: there is no error to raise.
\<close>

theorem distributionToCred_zero_mass:
  assumes "k < length ds"
    and "scoringMass nodeOrder sc (distribution (ds ! k)) = 0"
  shows "intervalCredScores (distributionToCred ds nodeOrder sc) ! k =
           replicate (length (distribution (ds ! k))) 0 \<and>
         (\<forall>x \<in> set (intervalCredScores (distributionToCred ds nodeOrder sc) ! k). x = 0)"
  using assms
  by (auto simp add: distributionToCred_def intervalCred_def Let_def map_replicate_const)

theorem distributionToCred_zero_mass_witness:
  "scoringMass [[''foo''], [''bar'']] [[''bar'']] [1, 0] = 0 \<and>
   intervalCredScores
     (distributionToCred
        [\<lparr>interval = \<lparr>startTimeMs = 0, endTimeMs = 10\<rparr>, intervalWeight = 2,
          distribution = [1, 0]\<rparr>]
        [[''foo''], [''bar'']] [[''bar'']]) ! 0 = [0, 0]"
proof -
  have mass: "scoringMass [[''foo''], [''bar'']] [[''bar'']] [1, 0] = 0"
    by (simp add: isScoring_def hasPrefix_def)
  show ?thesis
    using mass
      distributionToCred_zero_mass
        [where k = 0
           and ds = "[\<lparr>interval = \<lparr>startTimeMs = 0, endTimeMs = 10\<rparr>, intervalWeight = 2,
                       distribution = [1, 0]\<rparr>]"
           and nodeOrder = "[[''foo''], [''bar'']]" and sc = "[[''bar'']]"]
    by (simp add: numeral_2_eq_2)
qed

text \<open>
  C9. When every node of the node order matches some prefix of the scoring addresses,
  the result is the one obtained with the empty prefix alone, which matches every
  address.
\<close>

theorem distributionToCred_covering_prefixes:
  assumes "\<forall>n \<in> set nodeOrder. isScoring sc n"
  shows "distributionToCred ds nodeOrder sc = distributionToCred ds nodeOrder [[]]"
  using scoringMass_cover [OF assms]
  by (simp add: distributionToCred_def intervalCred_def Let_def)

theorem distributionToCred_covering_prefixes_witness:
  "isScoring [[''foo''], [''bar'']] [''foo''] \<and> isScoring [[''foo''], [''bar'']] [''bar''] \<and>
   distributionToCred testDistributions [[''foo''], [''bar'']] [[''foo''], [''bar'']] =
   distributionToCred testDistributions [[''foo''], [''bar'']] [[]]"
proof -
  have cover: "\<forall>n \<in> set [[''foo''], [''bar'']]. isScoring [[''foo''], [''bar'']] n"
    by (simp add: isScoring_def hasPrefix_def)
  show ?thesis
    using cover distributionToCred_covering_prefixes [OF cover, of testDistributions]
    by simp
qed


end
